theory Spec2Isabelle
  imports Main "HOL-Library.Word" "HOL-Library.Sublist"
begin

section \<open>Go strings\<close>

text \<open>
  A Go string is a sequence of bytes, so it is a \<^typ>\<open>string\<close> here (a list of 8-bit
  characters) and \<open>len\<close> is \<^const>\<open>length\<close>. The functions of package \<open>strings\<close> that the
  repository calls are written out below on bytes.
\<close>

definition HasPrefix :: "string \<Rightarrow> string \<Rightarrow> bool" where
  "HasPrefix s pre \<longleftrightarrow> length pre \<le> length s \<and> take (length pre) s = pre"

definition TrimPrefix :: "string \<Rightarrow> string \<Rightarrow> string" where
  "TrimPrefix s pre = (if HasPrefix s pre then drop (length pre) s else s)"

definition HasSuffix :: "string \<Rightarrow> string \<Rightarrow> bool" where
  "HasSuffix s suf \<longleftrightarrow> length suf \<le> length s \<and> drop (length s - length suf) s = suf"

definition TrimSuffix :: "string \<Rightarrow> string \<Rightarrow> string" where
  "TrimSuffix s suf = (if HasSuffix s suf then take (length s - length suf) s else s)"

fun stringsContains :: "string \<Rightarrow> string \<Rightarrow> bool" where
  "stringsContains [] sub = (sub = [])"
| "stringsContains (c # cs) sub = (HasPrefix (c # cs) sub \<or> stringsContains cs sub)"

text \<open>\<open>strings.TrimRight(s, "/")\<close>: the trailing slashes are cut off.\<close>

definition TrimRightSlash :: "string \<Rightarrow> string" where
  "TrimRightSlash s = rev (dropWhile (\<lambda>c. c = CHR ''/'') (rev s))"

fun Join :: "string list \<Rightarrow> string \<Rightarrow> string" where
  "Join [] sep = []"
| "Join [x] sep = x"
| "Join (x # y # ys) sep = x @ sep @ Join (y # ys) sep"

text \<open>
  \<open>strings.TrimSpace\<close> removes the leading and then the trailing white space runes of
  the UTF-8 text. The white space runes (\<open>unicode.IsSpace\<close>) are U+0009 to U+000D, U+0020,
  U+0085, U+00A0, U+1680, U+2000 to U+200A, U+2028, U+2029, U+202F, U+205F and U+3000; each
  has one valid encoding of one, two or three bytes, and a byte that does not belong to
  such an encoding stops the trimming.
\<close>

definition asciiSpace :: "char \<Rightarrow> bool" where
  "asciiSpace c \<longleftrightarrow> c \<in> set [CHR 0x09, CHR 0x0A, CHR 0x0B, CHR 0x0C, CHR 0x0D, CHR 0x20]"

definition space2 :: "char \<Rightarrow> char list \<Rightarrow> bool" where
  "space2 lead rest \<longleftrightarrow> lead = CHR 0xC2 \<and> rest \<in> set [[CHR 0x85], [CHR 0xA0]]"

definition space3 :: "char \<Rightarrow> char list \<Rightarrow> bool" where
  "space3 lead rest \<longleftrightarrow>
     (lead = CHR 0xE1 \<and> rest = [CHR 0x9A, CHR 0x80]) \<or>
     (lead = CHR 0xE2 \<and> rest \<in> set
        [[CHR 0x80, CHR 0x80], [CHR 0x80, CHR 0x81], [CHR 0x80, CHR 0x82], [CHR 0x80, CHR 0x83],
         [CHR 0x80, CHR 0x84], [CHR 0x80, CHR 0x85], [CHR 0x80, CHR 0x86], [CHR 0x80, CHR 0x87],
         [CHR 0x80, CHR 0x88], [CHR 0x80, CHR 0x89], [CHR 0x80, CHR 0x8A], [CHR 0x80, CHR 0xA8],
         [CHR 0x80, CHR 0xA9], [CHR 0x80, CHR 0xAF], [CHR 0x81, CHR 0x9F]]) \<or>
     (lead = CHR 0xE3 \<and> rest = [CHR 0x80, CHR 0x80])"

fun TrimLeftSpace :: "string \<Rightarrow> string" where
  "TrimLeftSpace [] = []"
| "TrimLeftSpace (c # cs) =
     (if asciiSpace c then TrimLeftSpace cs
      else if space2 c (take 1 cs) then TrimLeftSpace (drop 1 cs)
      else if space3 c (take 2 cs) then TrimLeftSpace (drop 2 cs)
      else c # cs)"

text \<open>
  The trailing runes are found from the end of the string: \<open>TrimRightSpaceRev\<close> works on the
  reversed string, where the last byte of the text comes first and the lead byte of a
  rune comes last.
\<close>

fun TrimRightSpaceRev :: "string \<Rightarrow> string" where
  "TrimRightSpaceRev [] = []"
| "TrimRightSpaceRev (c # cs) =
     (if asciiSpace c then TrimRightSpaceRev cs
      else if 1 \<le> length cs \<and> space2 (cs ! 0) [c] then TrimRightSpaceRev (drop 1 cs)
      else if 2 \<le> length cs \<and> space3 (cs ! 1) [cs ! 0, c] then TrimRightSpaceRev (drop 2 cs)
      else c # cs)"

definition TrimSpace :: "string \<Rightarrow> string" where
  "TrimSpace s = rev (TrimRightSpaceRev (rev (TrimLeftSpace s)))"

text \<open>
  \<open>strings.ToLower\<close> maps \<open>A\<close> to \<open>Z\<close> onto \<open>a\<close> to \<open>z\<close> when every byte of the string is
  ASCII. A string with a byte of 0x80 or more goes through the case tables of package
  \<open>unicode\<close>, which are not part of the repository: that mapping is the parameter
  \<open>lowerUnicode\<close> of every definition that lower-cases a string.
\<close>

definition asciiLower :: "char \<Rightarrow> char" where
  "asciiLower c =
     (case map_of (zip ''ABCDEFGHIJKLMNOPQRSTUVWXYZ'' ''abcdefghijklmnopqrstuvwxyz'') c of
        Some d \<Rightarrow> d
      | None \<Rightarrow> c)"

definition ToLower :: "(string \<Rightarrow> string) \<Rightarrow> string \<Rightarrow> string" where
  "ToLower lowerUnicode s =
     (if list_all (\<lambda>c. \<not> digit7 c) s then map asciiLower s else lowerUnicode s)"

section \<open>The provider registry (internal/remote/client.go)\<close>

record Provider =
  Name :: string
  Kind :: string
  BaseURL :: string
  APIKey :: string
  AccessToken :: string
  AccountID :: string
  ModelPrefix :: string
  RouteAll :: bool

record ProviderView =
  VName :: string
  VKind :: string
  VBaseURL :: string
  HasAPIKey :: bool
  HasAccessToken :: bool
  HasAccountID :: bool
  VModelPrefix :: string
  VRouteAll :: bool

text \<open>The zero value \<open>Provider{}\<close>.\<close>

definition zeroProvider :: Provider where
  "zeroProvider =
     \<lparr>Name = [], Kind = [], BaseURL = [], APIKey = [], AccessToken = [], AccountID = [],
      ModelPrefix = [], RouteAll = False\<rparr>"

definition sameProvider :: "Provider \<Rightarrow> Provider \<Rightarrow> bool" where
  "sameProvider a b =
     (if TrimSpace (Name a) \<noteq> [] \<and> TrimSpace (Name b) \<noteq> [] then Name a = Name b
      else if TrimSpace (ModelPrefix a) \<noteq> [] \<and> TrimSpace (ModelPrefix b) \<noteq> []
        then ModelPrefix a = ModelPrefix b
      else Kind a = Kind b \<and> BaseURL a = BaseURL b)"

definition defaultPrefix :: "string \<Rightarrow> string" where
  "defaultPrefix kind =
     (if kind = ''ollama'' then ''ollama/''
      else if kind = ''codex'' then ''codex/''
      else if kind = ''chatgpt'' then ''chatgpt/''
      else ''remote/'')"

definition normalizeProvider :: "(string \<Rightarrow> string) \<Rightarrow> Provider \<Rightarrow> Provider" where
  "normalizeProvider lowerUnicode p0 =
     (let p1 = (if TrimSpace (Kind p0) = [] then p0\<lparr>Kind := ''openai''\<rparr> else p0);
          p2 = p1\<lparr>Kind := ToLower lowerUnicode (TrimSpace (Kind p1))\<rparr>;
          p3 = (if TrimSpace (ModelPrefix p2) = []
                then p2\<lparr>ModelPrefix := defaultPrefix (Kind p2)\<rparr> else p2);
          p4 = (if TrimSpace (Name p3) = []
                then p3\<lparr>Name := TrimSuffix (ModelPrefix p3) ''/''\<rparr> else p3)
      in if TrimSpace (BaseURL p4) = [] \<and> Kind p4 = ''chatgpt''
         then p4\<lparr>BaseURL := ''https://chatgpt.com''\<rparr> else p4)"

text \<open>
  The manager's state is its slice of providers; the lock does not show in a sequential
  model. \<open>upsertLoop\<close> is the loop of \<open>Upsert\<close>: the first entry that is the same provider
  is overwritten, and the record is appended when the loop finds none.
\<close>

fun upsertLoop :: "Provider list \<Rightarrow> Provider \<Rightarrow> Provider list" where
  "upsertLoop [] p = [p]"
| "upsertLoop (x # xs) p = (if sameProvider x p then p # xs else x # upsertLoop xs p)"

definition Upsert :: "(string \<Rightarrow> string) \<Rightarrow> Provider \<Rightarrow> Provider list \<Rightarrow> Provider list" where
  "Upsert lowerUnicode provider providers =
     upsertLoop providers (normalizeProvider lowerUnicode provider)"

definition SetAll ::
  "(string \<Rightarrow> string) \<Rightarrow> Provider list \<Rightarrow> Provider list \<Rightarrow> Provider list" where
  "SetAll lowerUnicode new providers = map (normalizeProvider lowerUnicode) new"

definition NewManager :: "(string \<Rightarrow> string) \<Rightarrow> Provider list \<Rightarrow> Provider list" where
  "NewManager lowerUnicode seed = foldl (\<lambda>m p. Upsert lowerUnicode p m) [] seed"

definition View :: "Provider \<Rightarrow> ProviderView" where
  "View p =
     \<lparr>VName = Name p, VKind = Kind p, VBaseURL = BaseURL p,
      HasAPIKey = (TrimSpace (APIKey p) \<noteq> []),
      HasAccessToken = (TrimSpace (AccessToken p) \<noteq> []),
      HasAccountID = (TrimSpace (AccountID p) \<noteq> []),
      VModelPrefix = ModelPrefix p, VRouteAll = RouteAll p\<rparr>"

definition Views :: "Provider list \<Rightarrow> ProviderView list" where
  "Views providers = map View providers"

definition Providers :: "Provider list \<Rightarrow> Provider list" where
  "Providers providers = providers"

text \<open>
  The states a manager can be in: the provider slice is private, so it is what
  \<open>NewManager\<close> built, changed by any number of calls of \<open>Upsert\<close> and \<open>SetAll\<close>.
\<close>

inductive reachable :: "(string \<Rightarrow> string) \<Rightarrow> Provider list \<Rightarrow> bool"
  for lowerUnicode :: "string \<Rightarrow> string" where
  reachable_New: "reachable lowerUnicode (NewManager lowerUnicode seed)"
| reachable_Upsert:
    "reachable lowerUnicode ps \<Longrightarrow> reachable lowerUnicode (Upsert lowerUnicode p ps)"
| reachable_SetAll:
    "reachable lowerUnicode ps \<Longrightarrow> reachable lowerUnicode (SetAll lowerUnicode new ps)"

subsection \<open>The router\<close>

definition ShouldProxy :: "Provider \<Rightarrow> string \<Rightarrow> bool" where
  "ShouldProxy provider requestedModel =
     (if TrimSpace (BaseURL provider) = [] then False
      else if RouteAll provider then True
      else (let prefix = TrimSpace (ModelPrefix provider)
            in prefix \<noteq> [] \<and> HasPrefix (TrimSpace requestedModel) prefix))"

definition NormalizeModel :: "Provider \<Rightarrow> string \<Rightarrow> string" where
  "NormalizeModel provider requestedModel =
     (let model = TrimSpace requestedModel; prefix = TrimSpace (ModelPrefix provider)
      in if prefix \<noteq> [] \<and> HasPrefix model prefix then TrimPrefix model prefix else model)"

fun Match :: "Provider list \<Rightarrow> string \<Rightarrow> Provider \<times> string \<times> bool" where
  "Match [] requestedModel = (zeroProvider, [], False)"
| "Match (p # ps) requestedModel =
     (if ShouldProxy p requestedModel then (p, NormalizeModel p requestedModel, True)
      else Match ps requestedModel)"

text \<open>
  The routing rule in the words of the specification: a provider matches when its base
  URL is not blank and it routes everything or the trimmed model starts with its trimmed
  prefix; the rewritten model is the trimmed model without that prefix.
\<close>

definition spec_matches :: "Provider \<Rightarrow> string \<Rightarrow> bool" where
  "spec_matches p requestedModel \<longleftrightarrow>
     TrimSpace (BaseURL p) \<noteq> [] \<and>
     (RouteAll p \<or> prefix (TrimSpace (ModelPrefix p)) (TrimSpace requestedModel))"

definition spec_rewrite :: "Provider \<Rightarrow> string \<Rightarrow> string" where
  "spec_rewrite p requestedModel =
     (if prefix (TrimSpace (ModelPrefix p)) (TrimSpace requestedModel)
      then drop (length (TrimSpace (ModelPrefix p))) (TrimSpace requestedModel)
      else TrimSpace requestedModel)"

definition spec_Match :: "Provider list \<Rightarrow> string \<Rightarrow> Provider \<times> string \<times> bool" where
  "spec_Match ps requestedModel =
     (case find (\<lambda>p. spec_matches p requestedModel) ps of
        None \<Rightarrow> (zeroProvider, [], False)
      | Some p \<Rightarrow> (p, spec_rewrite p requestedModel, True))"

section \<open>JSON documents (encoding/json)\<close>

text \<open>
  The bytes of a body are not modelled: a body is the JSON document the bytes hold, or
  \<open>None\<close> when they are not one JSON value, in which case \<open>json.Unmarshal\<close> fails before
  it stores anything. A string is the unquoted UTF-8 text. An object keeps its members
  in the order of the document, repeated names included. A number is its literal: an
  integer literal \<open>IntLit i\<close>, or a literal with a fraction or an exponent
  \<open>RealLit m e\<close>, which stands for \<open>m * 10 ^ e\<close>.
\<close>

datatype jnum = IntLit int | RealLit int int

datatype json =
  JNull
| JBool bool
| JNumber jnum
| JString string
| JArray "json list"
| JObject "(string \<times> json) list"

text \<open>
  A number decodes into a Go \<open>int\<close> (64 bits) when its literal is an integer literal in
  the range of \<open>int64\<close> (\<open>strconv.ParseInt\<close>), and into an \<open>any\<close> as a \<open>float64\<close> unless it
  rounds to an infinity (\<open>strconv.ParseFloat\<close>), which happens from
  \<open>2 ^ 1024 - 2 ^ 970\<close> on.
\<close>

definition int64 :: "jnum \<Rightarrow> 64 word option" where
  "int64 n =
     (case n of
        IntLit i \<Rightarrow> if - (2 ^ 63) \<le> i \<and> i < 2 ^ 63 then Some (word_of_int i) else None
      | RealLit m e \<Rightarrow> None)"

definition float64OK :: "jnum \<Rightarrow> bool" where
  "float64OK n =
     (case n of
        IntLit i \<Rightarrow> \<bar>i\<bar> < 2 ^ 1024 - 2 ^ 970
      | RealLit m e \<Rightarrow>
          if 0 \<le> e then \<bar>m\<bar> * 10 ^ nat e < 2 ^ 1024 - 2 ^ 970
          else \<bar>m\<bar> < (2 ^ 1024 - 2 ^ 970) * 10 ^ nat (- e))"

fun floatsOK :: "json \<Rightarrow> bool" where
  "floatsOK (JNumber n) = float64OK n"
| "floatsOK (JArray vs) = list_all floatsOK vs"
| "floatsOK (JObject kvs) = list_all (\<lambda>kv. floatsOK (snd kv)) kvs"
| "floatsOK v = True"

text \<open>
  A member of an object is stored in the struct field whose name it spells, and the
  decoder accepts a spelling that differs by case only: both names are folded, ASCII
  letters to upper case and the two other runes whose case orbit meets ASCII, U+017F
  (long s) and U+212A (Kelvin sign), to \<open>S\<close> and \<open>K\<close>. The field names of the repository
  are ASCII, so no other rune can fold onto one of them.
\<close>

definition asciiUpper :: "char \<Rightarrow> char" where
  "asciiUpper c =
     (case map_of (zip ''abcdefghijklmnopqrstuvwxyz'' ''ABCDEFGHIJKLMNOPQRSTUVWXYZ'') c of
        Some d \<Rightarrow> d
      | None \<Rightarrow> c)"

fun foldName :: "string \<Rightarrow> string" where
  "foldName [] = []"
| "foldName (c # cs) =
     (if c = CHR 0xC5 \<and> take 1 cs = [CHR 0xBF] then CHR ''S'' # foldName (drop 1 cs)
      else if c = CHR 0xE2 \<and> take 2 cs = [CHR 0x84, CHR 0xAA] then CHR ''K'' # foldName (drop 2 cs)
      else asciiUpper c # foldName cs)"

definition equalFold :: "string \<Rightarrow> string \<Rightarrow> bool" where
  "equalFold name key \<longleftrightarrow> foldName key = foldName name"

text \<open>
  Decoding into a typed value. \<open>null\<close> leaves the target as it is; a value of another
  JSON type than the target's is an \<open>UnmarshalTypeError\<close>, which \<open>Unmarshal\<close> returns
  after it has gone through the rest of the document. The callers drop the decoded
  value when there is an error, so an error is \<open>None\<close> here. The members of an object
  are stored one after the other into the same struct, so of two members for one
  field the later one is kept, and a member that names no field is skipped.
\<close>

definition decodeString :: "json \<Rightarrow> string \<Rightarrow> string option" where
  "decodeString v cur =
     (case v of JString s \<Rightarrow> Some s | JNull \<Rightarrow> Some cur | _ \<Rightarrow> None)"

definition decodeInt :: "json \<Rightarrow> 64 word \<Rightarrow> 64 word option" where
  "decodeInt v cur =
     (case v of JNumber n \<Rightarrow> int64 n | JNull \<Rightarrow> Some cur | _ \<Rightarrow> None)"

fun decodeFields ::
  "(string \<Rightarrow> json \<Rightarrow> 'a \<Rightarrow> 'a option) \<Rightarrow> (string \<times> json) list \<Rightarrow> 'a \<Rightarrow> 'a option" where
  "decodeFields field [] x = Some x"
| "decodeFields field ((k, v) # kvs) x =
     (case field k v x of None \<Rightarrow> None | Some y \<Rightarrow> decodeFields field kvs y)"

definition decodeStruct ::
  "(string \<Rightarrow> json \<Rightarrow> 'a \<Rightarrow> 'a option) \<Rightarrow> json \<Rightarrow> 'a \<Rightarrow> 'a option" where
  "decodeStruct field v x =
     (case v of JObject kvs \<Rightarrow> decodeFields field kvs x | JNull \<Rightarrow> Some x | _ \<Rightarrow> None)"

text \<open>
  Decoding into a \<open>map[string]any\<close>: the document has to be an object or \<open>null\<close> (the nil
  map), and every number in it has to convert to a \<open>float64\<close>. The result is the list
  of members; \<open>mapIndex\<close> is the map lookup \<open>raw[key]\<close>, where the last member of a name
  is the one the map holds. The type assertions \<open>x.(map[string]any)\<close> and \<open>x.([]any)\<close>
  with a discarded \<open>ok\<close> give the nil map and the nil slice when they fail.
\<close>

definition unmarshalMap :: "json option \<Rightarrow> (string \<times> json) list option" where
  "unmarshalMap body =
     (case body of
        None \<Rightarrow> None
      | Some JNull \<Rightarrow> Some []
      | Some (JObject kvs) \<Rightarrow> if floatsOK (JObject kvs) then Some kvs else None
      | Some _ \<Rightarrow> None)"

definition mapIndex :: "(string \<times> json) list \<Rightarrow> string \<Rightarrow> json option" where
  "mapIndex kvs key = map_of (rev kvs) key"

definition assertMap :: "json \<Rightarrow> (string \<times> json) list" where
  "assertMap v = (case v of JObject kvs \<Rightarrow> kvs | _ \<Rightarrow> [])"

definition assertSlice :: "json option \<Rightarrow> json list" where
  "assertSlice v = (case v of Some (JArray vs) \<Rightarrow> vs | _ \<Rightarrow> [])"

section \<open>The chat types (internal/chat)\<close>

text \<open>
  The usage counters are Go \<open>int\<close>s that the code adds up: they are 64-bit words, the
  size of \<open>int\<close> on a 64-bit platform. The other integers (an index, a status code, a
  time stamp) are only passed on and are of type \<^typ>\<open>int\<close>. \<open>Temperature\<close> is a
  \<open>float64\<close>, held as the number literal that \<open>json.Marshal\<close> prints for it.
\<close>

record Message =
  Role :: string
  Content :: string

record CompletionRequest =
  Model :: string
  Messages :: "Message list"
  Temperature :: jnum

record Choice =
  Index :: int
  FinishReason :: string
  Message :: Message

record Usage =
  PromptTokens :: "64 word"
  CompletionTokens :: "64 word"
  TotalTokens :: "64 word"

record CompletionResponse =
  ID :: string
  Object :: string
  Created :: int
  RespModel :: string
  Choices :: "Choice list"
  Usage :: Usage

text \<open>The zero value \<open>chat.CompletionResponse{}\<close>.\<close>

definition zeroResponse :: CompletionResponse where
  "zeroResponse =
     \<lparr>ID = [], Object = [], Created = 0, RespModel = [], Choices = [],
      Usage = \<lparr>PromptTokens = 0, CompletionTokens = 0, TotalTokens = 0\<rparr>\<rparr>"

text \<open>
  \<open>json.Marshal\<close> of the chat types, by their struct tags. The strings are UTF-8 text
  (they come out of decoded JSON), which \<open>Marshal\<close> keeps as it is.
\<close>

definition MarshalMessage :: "Message \<Rightarrow> json" where
  "MarshalMessage m = JObject [(''role'', JString (Role m)), (''content'', JString (Content m))]"

definition MarshalChoice :: "Choice \<Rightarrow> json" where
  "MarshalChoice c =
     JObject [(''index'', JNumber (IntLit (Index c))),
              (''finish_reason'', JString (FinishReason c)),
              (''message'', MarshalMessage (Message c))]"

definition MarshalUsage :: "Usage \<Rightarrow> json" where
  "MarshalUsage u =
     JObject [(''prompt_tokens'', JNumber (IntLit (sint (PromptTokens u)))),
              (''completion_tokens'', JNumber (IntLit (sint (CompletionTokens u)))),
              (''total_tokens'', JNumber (IntLit (sint (TotalTokens u))))]"

definition MarshalResponse :: "CompletionResponse \<Rightarrow> json" where
  "MarshalResponse r =
     JObject [(''id'', JString (ID r)), (''object'', JString (Object r)),
              (''created'', JNumber (IntLit (Created r))), (''model'', JString (RespModel r)),
              (''choices'', JArray (map MarshalChoice (Choices r))),
              (''usage'', MarshalUsage (Usage r))]"

section \<open>The upstream client (internal/remote/client.go)\<close>

text \<open>
  The HTTP exchange is a parameter: a \<open>transport\<close> takes the URL, the headers and the
  JSON payload of a POST request and gives the body and the status code of the answer,
  or \<open>None\<close> when building the request, sending it or reading the answer fails.
\<close>

type_synonym transport =
  "string \<Rightarrow> (string \<times> string) list \<Rightarrow> json \<Rightarrow> (json option \<times> int) option"

datatype clientError = BaseURLEmpty | TransportFailed | DecodeOllamaResponse

definition joinURL :: "string \<Rightarrow> string \<Rightarrow> string option" where
  "joinURL baseURL sfx =
     (let base = TrimRightSlash (TrimSpace baseURL)
      in if base = [] then None else Some (base @ sfx))"

definition postJSON ::
  "transport \<Rightarrow> Provider \<Rightarrow> string \<Rightarrow> json \<Rightarrow> (json option \<times> int) option" where
  "postJSON send provider url payload =
     send url
       ([(''Content-Type'', ''application/json'')] @
        (if TrimSpace (AccessToken provider) \<noteq> []
         then [(''Authorization'', ''Bearer '' @ TrimSpace (AccessToken provider))]
         else if TrimSpace (APIKey provider) \<noteq> []
         then [(''Authorization'', ''Bearer '' @ TrimSpace (APIKey provider))]
         else []) @
        (if TrimSpace (AccountID provider) \<noteq> []
         then [(''chatgpt-account-id'', AccountID provider)] else []))
       payload"

definition isZero :: "jnum \<Rightarrow> bool" where
  "isZero n = (case n of IntLit i \<Rightarrow> i = 0 | RealLit m e \<Rightarrow> m = 0)"

definition chatOpenAICompatible ::
  "transport \<Rightarrow> Provider \<Rightarrow> CompletionRequest \<Rightarrow> string \<Rightarrow> clientError + (json option \<times> int)" where
  "chatOpenAICompatible send provider req model =
     (case joinURL (BaseURL provider) ''/v1/chat/completions'' of
        None \<Rightarrow> Inl BaseURLEmpty
      | Some url \<Rightarrow>
          (case postJSON send provider url
                  (JObject ([(''messages'', JArray (map MarshalMessage (Messages req))),
                             (''model'', JString model)] @
                            (if \<not> isZero (Temperature req)
                             then [(''temperature'', JNumber (Temperature req))] else []))) of
             None \<Rightarrow> Inl TransportFailed
           | Some answer \<Rightarrow> Inr answer))"

subsection \<open>The ChatGPT backend\<close>

text \<open>The struct \<open>simple\<close> has the one field \<open>OutputText\<close>, tagged \<open>output_text\<close>.\<close>

definition simpleField :: "string \<Rightarrow> json \<Rightarrow> string \<Rightarrow> string option" where
  "simpleField key v OutputText =
     (if equalFold ''output_text'' key then decodeString v OutputText else Some OutputText)"

definition unmarshalSimple :: "json option \<Rightarrow> string option" where
  "unmarshalSimple body =
     (case body of None \<Rightarrow> None | Some v \<Rightarrow> decodeStruct simpleField v [])"

text \<open>The two loops over \<open>out\<close> and over \<open>content\<close>, which append to \<open>chunks\<close>.\<close>

fun contentLoop :: "json list \<Rightarrow> string list \<Rightarrow> string list" where
  "contentLoop [] chunks = chunks"
| "contentLoop (c # cs) chunks =
     (case mapIndex (assertMap c) ''text'' of
        Some (JString t) \<Rightarrow> contentLoop cs (chunks @ [t])
      | _ \<Rightarrow> contentLoop cs chunks)"

fun outputLoop :: "json list \<Rightarrow> string list \<Rightarrow> string list" where
  "outputLoop [] chunks = chunks"
| "outputLoop (item # out) chunks =
     outputLoop out
       (contentLoop (assertSlice (mapIndex (assertMap item) ''content'')) chunks)"

definition extractChatGPTOutputText :: "json option \<Rightarrow> string" where
  "extractChatGPTOutputText body =
     (let generic =
        (case unmarshalMap body of
           None \<Rightarrow> []
         | Some raw \<Rightarrow>
             (case mapIndex raw ''output_text'' of
                Some (JString v) \<Rightarrow> v
              | _ \<Rightarrow>
                  (case mapIndex raw ''output'' of
                     Some (JArray out) \<Rightarrow> TrimSpace (Join (outputLoop out []) [CHR 0x0A])
                   | _ \<Rightarrow> [])))
      in case unmarshalSimple body of
           Some OutputText \<Rightarrow> if TrimSpace OutputText \<noteq> [] then OutputText else generic
         | None \<Rightarrow> generic)"

definition chatChatGPT ::
  "transport \<Rightarrow> int \<Rightarrow> Provider \<Rightarrow> CompletionRequest \<Rightarrow> string \<Rightarrow>
   clientError + (json option \<times> int)" where
  "chatChatGPT send now provider req model =
     (case joinURL (BaseURL provider) ''/backend-api/codex/responses'' of
        None \<Rightarrow> Inl BaseURLEmpty
      | Some url \<Rightarrow>
          (case postJSON send provider url
                  (JObject [(''input'', JArray (map (\<lambda>m.
                               JObject [(''content'', JArray [JObject
                                          [(''text'', JString (Content m)),
                                           (''type'', JString ''input_text'')]]),
                                        (''role'', JString (Role m))]) (Messages req))),
                            (''model'', JString model), (''stream'', JBool False)]) of
             None \<Rightarrow> Inl TransportFailed
           | Some (body, status) \<Rightarrow>
               if status \<ge> 400 then Inr (body, status)
               else Inr (Some (MarshalResponse
                      \<lparr>ID = ''chatcmpl-chatgpt'', Object = ''chat.completion'', Created = now,
                       RespModel = model,
                       Choices = [\<lparr>Index = 0, FinishReason = ''stop'',
                                   Message = \<lparr>Role = ''assistant'',
                                              Content = extractChatGPTOutputText body\<rparr>\<rparr>],
                       Usage = \<lparr>PromptTokens = 0, CompletionTokens = 0, TotalTokens = 0\<rparr>\<rparr>),
                     200)))"

subsection \<open>Ollama\<close>

record ollamaMessage =
  ORole :: string
  OContent :: string

record ollamaResp =
  OModel :: string
  OMessage :: ollamaMessage
  PromptEvalCount :: "64 word"
  EvalCount :: "64 word"

definition ollamaMessageField ::
  "string \<Rightarrow> json \<Rightarrow> ollamaMessage \<Rightarrow> ollamaMessage option" where
  "ollamaMessageField key v m =
     (if equalFold ''role'' key
      then map_option (\<lambda>s. m\<lparr>ORole := s\<rparr>) (decodeString v (ORole m))
      else if equalFold ''content'' key
      then map_option (\<lambda>s. m\<lparr>OContent := s\<rparr>) (decodeString v (OContent m))
      else Some m)"

definition ollamaRespField :: "string \<Rightarrow> json \<Rightarrow> ollamaResp \<Rightarrow> ollamaResp option" where
  "ollamaRespField key v r =
     (if equalFold ''model'' key
      then map_option (\<lambda>s. r\<lparr>OModel := s\<rparr>) (decodeString v (OModel r))
      else if equalFold ''message'' key
      then map_option (\<lambda>m. r\<lparr>OMessage := m\<rparr>) (decodeStruct ollamaMessageField v (OMessage r))
      else if equalFold ''prompt_eval_count'' key
      then map_option (\<lambda>n. r\<lparr>PromptEvalCount := n\<rparr>) (decodeInt v (PromptEvalCount r))
      else if equalFold ''eval_count'' key
      then map_option (\<lambda>n. r\<lparr>EvalCount := n\<rparr>) (decodeInt v (EvalCount r))
      else Some r)"

definition unmarshalOllama :: "json option \<Rightarrow> ollamaResp option" where
  "unmarshalOllama body =
     (case body of
        None \<Rightarrow> None
      | Some v \<Rightarrow>
          decodeStruct ollamaRespField v
            \<lparr>OModel = [], OMessage = \<lparr>ORole = [], OContent = []\<rparr>,
             PromptEvalCount = 0, EvalCount = 0\<rparr>)"

definition ollamaPayload :: "string \<Rightarrow> CompletionRequest \<Rightarrow> json" where
  "ollamaPayload model req =
     JObject [(''messages'', JArray (map MarshalMessage (Messages req))),
              (''model'', JString model), (''stream'', JBool False)]"

definition chatOllama ::
  "transport \<Rightarrow> int \<Rightarrow> Provider \<Rightarrow> CompletionRequest \<Rightarrow> string \<Rightarrow>
   clientError + (json option \<times> int)" where
  "chatOllama send now provider req model =
     (case joinURL (BaseURL provider) ''/api/chat'' of
        None \<Rightarrow> Inl BaseURLEmpty
      | Some url \<Rightarrow>
          (case postJSON send provider url (ollamaPayload model req) of
             None \<Rightarrow> Inl TransportFailed
           | Some (body, status) \<Rightarrow>
               if status \<ge> 400 then Inr (body, status)
               else
                 (case unmarshalOllama body of
                    None \<Rightarrow> Inl DecodeOllamaResponse
                  | Some r \<Rightarrow>
                      (let resp =
                         \<lparr>ID = ''chatcmpl-ollama'', Object = ''chat.completion'', Created = now,
                          RespModel = OModel r,
                          Choices = [\<lparr>Index = 0, FinishReason = ''stop'',
                                      Message = \<lparr>Role = ORole (OMessage r),
                                                 Content = OContent (OMessage r)\<rparr>\<rparr>],
                          Usage = \<lparr>PromptTokens = PromptEvalCount r,
                                   CompletionTokens = EvalCount r, TotalTokens = 0\<rparr>\<rparr>;
                           resp = resp\<lparr>Usage := (Usage resp)\<lparr>TotalTokens :=
                                    PromptTokens (Usage resp) + CompletionTokens (Usage resp)\<rparr>\<rparr>
                       in Inr (Some (MarshalResponse resp), 200)))))"

definition ChatCompletions ::
  "transport \<Rightarrow> int \<Rightarrow> Provider \<Rightarrow> CompletionRequest \<Rightarrow> string \<Rightarrow>
   clientError + (json option \<times> int)" where
  "ChatCompletions send now provider req model =
     (if Kind provider = ''ollama'' then chatOllama send now provider req model
      else if Kind provider = ''chatgpt'' then chatChatGPT send now provider req model
      else chatOpenAICompatible send provider req model)"

section \<open>The rule store (internal/rules)\<close>

record Rule =
  Contains :: string
  Reply :: string

fun matchLoop :: "(string \<Rightarrow> string) \<Rightarrow> Rule list \<Rightarrow> string \<Rightarrow> string \<times> bool" where
  "matchLoop lowerUnicode [] lowered = ([], False)"
| "matchLoop lowerUnicode (rule # rules) lowered =
     (if stringsContains lowered (ToLower lowerUnicode (Contains rule)) then (Reply rule, True)
      else matchLoop lowerUnicode rules lowered)"

definition StoreMatch :: "(string \<Rightarrow> string) \<Rightarrow> Rule list \<Rightarrow> string \<Rightarrow> string \<times> bool" where
  "StoreMatch lowerUnicode rules content =
     matchLoop lowerUnicode rules (ToLower lowerUnicode content)"

section \<open>The completion handler (internal/api/handlers.go)\<close>

record Handlers =
  rules :: "Rule list"
  remoteManager :: "Provider list"
  remoteClient :: transport

text \<open>
  The errors of \<open>runCompletion\<close>: \<open>InvalidRequest\<close> is "messages must not be empty",
  \<open>RemoteRequestFailed\<close> wraps the client's error, \<open>RemoteStatus\<close> is "remote returned
  status n" and \<open>InvalidRemoteResponse\<close> is "invalid remote response".
\<close>

datatype error =
  InvalidRequest
| RemoteRequestFailed clientError
| RemoteStatus int
| InvalidRemoteResponse

text \<open>The calls that \<open>runCompletion\<close> makes on its collaborators, in the order made.\<close>

datatype call =
  RegistryMatch string
| ClientChatCompletions Provider string
| RulesMatch string

definition chooseModel :: "string \<Rightarrow> string" where
  "chooseModel model = (if TrimSpace model = [] then ''gpt-mock-1'' else model)"

text \<open>
  Go's \<open>/\<close> on integers truncates towards zero, and \<open><\<close> on \<open>int\<close> compares the signed
  values.
\<close>

definition intQuo :: "64 word \<Rightarrow> 64 word \<Rightarrow> 64 word" where
  "intQuo a b = word_of_int (sgn (sint a) * sgn (sint b) * (\<bar>sint a\<bar> div \<bar>sint b\<bar>))"

fun sumLengths :: "Message list \<Rightarrow> 64 word \<Rightarrow> 64 word" where
  "sumLengths [] acc = acc"
| "sumLengths (m # ms) acc = sumLengths ms (acc + of_nat (length (Content m)))"

definition estimateTokens :: "Message list \<Rightarrow> 64 word" where
  "estimateTokens messages =
     (let total = sumLengths messages 0
      in if total = 0 then 0 else if total <s 4 then 1 else intQuo total 4)"

text \<open>
  \<open>unmarshalResponse\<close> stands for \<open>json.Unmarshal\<close> of the upstream body into a
  \<open>chat.CompletionResponse\<close> (\<open>None\<close> when it fails), and \<open>now\<close> for \<open>time.Now().Unix()\<close>.
\<close>

definition runCompletion ::
  "(string \<Rightarrow> string) \<Rightarrow> (json option \<Rightarrow> CompletionResponse option) \<Rightarrow> int \<Rightarrow>
   Handlers \<Rightarrow> CompletionRequest \<Rightarrow> (CompletionResponse \<times> int \<times> error option) \<times> call list" where
  "runCompletion lowerUnicode unmarshalResponse now h req =
     (if length (Messages req) = 0 then ((zeroResponse, 400, Some InvalidRequest), [])
      else
        (case Match (remoteManager h) (Model req) of
           (provider, model, True) \<Rightarrow>
             (let calls = [RegistryMatch (Model req), ClientChatCompletions provider model]
              in case ChatCompletions (remoteClient h) now provider req model of
                   Inl err \<Rightarrow> ((zeroResponse, 502, Some (RemoteRequestFailed err)), calls)
                 | Inr (respBody, status) \<Rightarrow>
                     if status \<ge> 400
                     then ((zeroResponse, status, Some (RemoteStatus status)), calls)
                     else
                       (case unmarshalResponse respBody of
                          None \<Rightarrow> ((zeroResponse, 502, Some InvalidRemoteResponse), calls)
                        | Some out \<Rightarrow> ((out, 200, None), calls)))
         | (provider, model, False) \<Rightarrow>
             (let last = Content (Messages req ! (length (Messages req) - 1));
                  (reply, ok) = StoreMatch lowerUnicode (rules h) last;
                  reply = (if \<not> ok
                           then ''Mock response: I received your message and no custom rule matched.''
                           else reply);
                  resp =
                    \<lparr>ID = ''chatcmpl-mock'', Object = ''chat.completion'', Created = now,
                     RespModel = chooseModel (Model req),
                     Choices = [\<lparr>Index = 0, FinishReason = ''stop'',
                                 Message = \<lparr>Role = ''assistant'', Content = reply\<rparr>\<rparr>],
                     Usage = \<lparr>PromptTokens = estimateTokens (Messages req),
                              CompletionTokens =
                                estimateTokens [\<lparr>Role = ''assistant'', Content = reply\<rparr>],
                              TotalTokens = 0\<rparr>\<rparr>;
                  resp = resp\<lparr>Usage := (Usage resp)\<lparr>TotalTokens :=
                           PromptTokens (Usage resp) + CompletionTokens (Usage resp)\<rparr>\<rparr>
              in ((resp, 200, None), [RegistryMatch (Model req), RulesMatch last]))))"

section \<open>The server (internal/app/server.go)\<close>

text \<open>
  \<open>NewServer\<close> seeds the rule store with two rules and the manager with the providers
  that the environment configures; \<open>initialProviders\<close> is that list, empty when no
  variable is set.
\<close>

definition NewServer :: "(string \<Rightarrow> string) \<Rightarrow> transport \<Rightarrow> Provider list \<Rightarrow> Handlers" where
  "NewServer lowerUnicode send initialProviders =
     \<lparr>rules = [\<lparr>Contains = ''hello'', Reply = ''Hi! This is a mocked assistant response.''\<rparr>,
               \<lparr>Contains = ''weather'',
                Reply = ''The mock forecast: sunny with a chance of unit tests.''\<rparr>],
      remoteManager = NewManager lowerUnicode initialProviders,
      remoteClient = send\<rparr>"

section \<open>The statements of the specification\<close>

text \<open>
  The definitions of this section are not taken from the code: they say in the words
  of the specification what the code is compared with, or name an input.
\<close>

text \<open>
  A lower-casing for strings that have a byte outside ASCII but no letter to change:
  it keeps the bytes.
\<close>

definition keepBytes :: "string \<Rightarrow> string" where
  "keepBytes s = s"

text \<open>The number of entries of a list that are the same provider as \<open>q\<close>.\<close>

definition countSame :: "Provider \<Rightarrow> Provider list \<Rightarrow> nat" where
  "countSame q ps = length (filter (\<lambda>x. sameProvider x q) ps)"


text \<open>
  Two providers that differ in the values of their secrets at most, where each secret
  is blank in both or in neither.
\<close>

definition secretsDifferOnly :: "Provider \<Rightarrow> Provider \<Rightarrow> bool" where
  "secretsDifferOnly p q \<longleftrightarrow>
     Name p = Name q \<and> Kind p = Kind q \<and> BaseURL p = BaseURL q \<and>
     ModelPrefix p = ModelPrefix q \<and> RouteAll p = RouteAll q \<and>
     (TrimSpace (APIKey p) = []) = (TrimSpace (APIKey q) = []) \<and>
     (TrimSpace (AccessToken p) = []) = (TrimSpace (AccessToken q) = []) \<and>
     (TrimSpace (AccountID p) = []) = (TrimSpace (AccountID q) = [])"

text \<open>The token estimate: nothing for no text, one token up to three bytes, a quarter else.\<close>

definition spec_tokens :: "nat \<Rightarrow> nat" where
  "spec_tokens n = (if n = 0 then 0 else if n \<le> 3 then 1 else n div 4)"








text \<open>Inputs of the examples.\<close>

definition codexProvider :: Provider where
  "codexProvider =
     \<lparr>Name = ''codex'', Kind = ''codex'', BaseURL = ''https://example.com'', APIKey = ''secret'',
      AccessToken = [], AccountID = [], ModelPrefix = ''codex/'', RouteAll = False\<rparr>"

definition ollamaProvider :: Provider where
  "ollamaProvider =
     \<lparr>Name = ''ollama'', Kind = ''ollama'', BaseURL = ''http://localhost:11434'', APIKey = [],
      AccessToken = [], AccountID = [], ModelPrefix = ''ollama/'', RouteAll = False\<rparr>"




text \<open>A transport that fails, and a decoder of responses that rejects every body.\<close>

definition failingTransport :: transport where
  "failingTransport url headers payload = None"

definition rejectResponse :: "json option \<Rightarrow> CompletionResponse option" where
  "rejectResponse body = None"

text \<open>
  The Ollama server of the repository's test: it answers every request with status 200
  and one fixed message.
\<close>

definition ollamaTestServer :: transport where
  "ollamaTestServer url headers payload =
     Some (Some (JObject [(''model'', JString ''llama3.1''),
                          (''message'', JObject [(''role'', JString ''assistant''),
                                                 (''content'', JString ''from ollama'')]),
                          (''prompt_eval_count'', JNumber (IntLit 2)),
                          (''eval_count'', JNumber (IntLit 3))]), 200)"


definition helloRequest :: CompletionRequest where
  "helloRequest =
     \<lparr>Model = ''gpt-mock-1'', Messages = [\<lparr>Role = ''user'', Content = ''hello''\<rparr>],
      Temperature = IntLit 0\<rparr>"

section \<open>The registry and the router\<close>

subsection \<open>Facts about strings\<close>

lemma HasPrefix_iff_prefix: "HasPrefix s pre \<longleftrightarrow> prefix pre s"
proof
  assume "HasPrefix s pre"
  then have "take (length pre) s = pre" by (simp add: HasPrefix_def)
  then have "s = pre @ drop (length pre) s" by (metis append_take_drop_id)
  then show "prefix pre s" by (metis prefixI)
next
  assume "prefix pre s"
  then obtain t where "s = pre @ t" by (auto simp: prefix_def)
  then show "HasPrefix s pre" by (simp add: HasPrefix_def)
qed

lemma TrimSpace_Nil: "TrimSpace [] = []"
  by (simp add: TrimSpace_def)

lemma TrimSpace_defaults:
  "TrimSpace ''ollama/'' \<noteq> []" "TrimSpace ''codex/'' \<noteq> []"
  "TrimSpace ''chatgpt/'' \<noteq> []" "TrimSpace ''remote/'' \<noteq> []"
  by code_simp+

lemma defaultPrefix_nonblank: "TrimSpace (defaultPrefix k) \<noteq> []"
  by (simp add: defaultPrefix_def TrimSpace_defaults)

lemma lower_openai: "ToLower U (TrimSpace ''openai'') = ''openai''"
  by code_simp

subsection \<open>What normalization stores\<close>

lemma normalizeProvider_fields:
  "Kind (normalizeProvider U q) =
     (if TrimSpace (Kind q) = [] then ''openai'' else ToLower U (TrimSpace (Kind q)))"
  "ModelPrefix (normalizeProvider U q) =
     (if TrimSpace (ModelPrefix q) = [] then defaultPrefix (Kind (normalizeProvider U q))
      else ModelPrefix q)"
  "Name (normalizeProvider U q) =
     (if TrimSpace (Name q) = [] then TrimSuffix (ModelPrefix (normalizeProvider U q)) ''/''
      else Name q)"
  "BaseURL (normalizeProvider U q) =
     (if TrimSpace (BaseURL q) = [] \<and> Kind (normalizeProvider U q) = ''chatgpt''
      then ''https://chatgpt.com'' else BaseURL q)"
  "APIKey (normalizeProvider U q) = APIKey q"
  "AccessToken (normalizeProvider U q) = AccessToken q"
  "AccountID (normalizeProvider U q) = AccountID q"
  "RouteAll (normalizeProvider U q) = RouteAll q"
  by (simp_all add: normalizeProvider_def Let_def lower_openai)

lemma normalize_prefix_nonblank: "TrimSpace (ModelPrefix (normalizeProvider U q)) \<noteq> []"
  by (simp add: normalizeProvider_fields(2) defaultPrefix_nonblank)

lemma upsertLoop_set: "set (upsertLoop ps p) \<subseteq> insert p (set ps)"
  by (induction ps) auto


lemma foldl_Upsert_normal:
  "\<forall>p \<in> set ps. \<exists>q. p = normalizeProvider U q \<Longrightarrow>
   \<forall>p \<in> set (foldl (\<lambda>m p. Upsert U p m) ps seed). \<exists>q. p = normalizeProvider U q"
proof (induction seed arbitrary: ps)
  case Nil
  then show ?case by simp
next
  case (Cons a seed)
  have "\<forall>p \<in> set (Upsert U a ps). \<exists>q. p = normalizeProvider U q"
    using Cons.prems upsertLoop_set[of ps "normalizeProvider U a"]
    by (auto simp: Upsert_def)
  from Cons.IH[OF this] show ?case by simp
qed

lemma reachable_normal:
  "reachable U ps \<Longrightarrow> \<forall>p \<in> set ps. \<exists>q. p = normalizeProvider U q"
proof (induction rule: reachable.induct)
  case (reachable_New seed)
  show ?case unfolding NewManager_def by (rule foldl_Upsert_normal) simp
next
  case (reachable_Upsert ps p)
  then show ?case using upsertLoop_set[of ps "normalizeProvider U p"]
    by (auto simp: Upsert_def)
next
  case (reachable_SetAll ps new)
  then show ?case by (auto simp: SetAll_def)
qed

subsection \<open>Routing\<close>

lemma ShouldProxy_spec:
  "TrimSpace (ModelPrefix p) \<noteq> [] \<Longrightarrow> ShouldProxy p m = spec_matches p m"
  by (auto simp: ShouldProxy_def spec_matches_def Let_def HasPrefix_iff_prefix)

text \<open>
  \<open>ShouldProxy\<close> guards against an empty prefix: a provider with a blank prefix and
  without the route-all flag matches no model. No stored provider has a blank prefix.
\<close>

lemma blank_prefix_never_matches:
  "TrimSpace (ModelPrefix p) = [] \<Longrightarrow> \<not> RouteAll p \<Longrightarrow> \<not> ShouldProxy p m"
  by (simp add: ShouldProxy_def)

lemma NormalizeModel_spec: "NormalizeModel p m = spec_rewrite p m"
  by (auto simp: NormalizeModel_def spec_rewrite_def Let_def HasPrefix_iff_prefix TrimPrefix_def)

lemma Match_spec:
  "\<forall>p \<in> set ps. TrimSpace (ModelPrefix p) \<noteq> [] \<Longrightarrow> Match ps m = spec_Match ps m"
  by (induction ps) (auto simp: spec_Match_def ShouldProxy_spec NormalizeModel_spec)

text \<open>
  Claim C1. In every state of the registry and for every requested model, \<open>Match\<close>
  returns the first provider, in the order of registration, that matches: one whose
  base URL is not blank and that routes everything or whose trimmed prefix is a prefix
  of the trimmed model. The rewritten model is the trimmed model without that prefix
  when the prefix is a prefix of it, the trimmed model otherwise; without a match the
  result is the zero provider, the empty string and \<open>False\<close>.
\<close>

theorem Match_first_match:
  assumes "reachable U ps"
  shows "Match ps m = spec_Match ps m"
proof (rule Match_spec)
  show "\<forall>p \<in> set ps. TrimSpace (ModelPrefix p) \<noteq> []"
    using reachable_normal[OF assms] normalize_prefix_nonblank by auto
qed

theorem Match_first_match_witness:
  "reachable keepBytes (Upsert keepBytes codexProvider (NewManager keepBytes [])) \<and>
   spec_Match (Upsert keepBytes codexProvider (NewManager keepBytes [])) '' codex/gpt-5 ''
     = (codexProvider, ''gpt-5'', True) \<and>
   spec_Match (Upsert keepBytes codexProvider (NewManager keepBytes [])) ''other/gpt-5''
     = (zeroProvider, [], False)"
proof -
  let ?ps = "Upsert keepBytes codexProvider (NewManager keepBytes [])"
  have r: "reachable keepBytes ?ps" by (intro reachable.intros)
  have "Match ?ps '' codex/gpt-5 '' = (codexProvider, ''gpt-5'', True)" by code_simp
  moreover have "Match ?ps ''other/gpt-5'' = (zeroProvider, [], False)" by code_simp
  ultimately show ?thesis using r Match_first_match[OF r] by simp
qed

subsection \<open>Upsert\<close>

lemma sameProvider_refl: "sameProvider q q"
  by (simp add: sameProvider_def)

lemma upsertLoop_idem: "upsertLoop (upsertLoop ps q) q = upsertLoop ps q"
  by (induction ps) (simp_all add: sameProvider_refl)

lemma countSame_upsertLoop: "countSame q (upsertLoop ps q) = max 1 (countSame q ps)"
  by (induction ps) (simp_all add: countSame_def sameProvider_refl)

lemma upsertLoop_shape:
  "upsertLoop ps q =
     (if list_ex (\<lambda>x. sameProvider x q) ps
      then takeWhile (\<lambda>x. \<not> sameProvider x q) ps @
           q # tl (dropWhile (\<lambda>x. \<not> sameProvider x q) ps)
      else ps @ [q])"
  by (induction ps) simp_all

text \<open>
  Claim C4, as amended. \<open>Upsert\<close> is idempotent: in every state of the registry, a
  second \<open>Upsert\<close> of the same record changes nothing. The number of entries with the
  identity of the record is then the number there was before, and one when there was
  none: it is exactly one from the empty registry, not in every state. Two records
  have the same identity when both names are not blank and equal; else when both
  prefixes are not blank and equal; else when kind and base URL are equal. The first
  entry with the identity of the record is replaced by the whole normalized record
  and the other entries stay as they are; without such an entry the record is
  appended.
\<close>

theorem Upsert_idempotent:
  "Upsert U p (Upsert U p ps) = Upsert U p ps \<and>
   countSame (normalizeProvider U p) (Upsert U p ps)
     = max 1 (countSame (normalizeProvider U p) ps) \<and>
   Upsert U p (Upsert U p []) = [normalizeProvider U p] \<and>
   (sameProvider a b \<longleftrightarrow>
      (if TrimSpace (Name a) \<noteq> [] \<and> TrimSpace (Name b) \<noteq> [] then Name a = Name b
       else if TrimSpace (ModelPrefix a) \<noteq> [] \<and> TrimSpace (ModelPrefix b) \<noteq> []
         then ModelPrefix a = ModelPrefix b
       else Kind a = Kind b \<and> BaseURL a = BaseURL b)) \<and>
   Upsert U p ps =
     (if list_ex (\<lambda>x. sameProvider x (normalizeProvider U p)) ps
      then takeWhile (\<lambda>x. \<not> sameProvider x (normalizeProvider U p)) ps @
           normalizeProvider U p #
           tl (dropWhile (\<lambda>x. \<not> sameProvider x (normalizeProvider U p)) ps)
      else ps @ [normalizeProvider U p])"
proof (intro conjI)
  show "Upsert U p (Upsert U p ps) = Upsert U p ps"
    by (simp add: Upsert_def upsertLoop_idem)
  show "countSame (normalizeProvider U p) (Upsert U p ps)
          = max 1 (countSame (normalizeProvider U p) ps)"
    by (simp add: Upsert_def countSame_upsertLoop)
  show "Upsert U p (Upsert U p []) = [normalizeProvider U p]"
    by (simp add: Upsert_def sameProvider_refl)
  show "sameProvider a b \<longleftrightarrow>
      (if TrimSpace (Name a) \<noteq> [] \<and> TrimSpace (Name b) \<noteq> [] then Name a = Name b
       else if TrimSpace (ModelPrefix a) \<noteq> [] \<and> TrimSpace (ModelPrefix b) \<noteq> []
         then ModelPrefix a = ModelPrefix b
       else Kind a = Kind b \<and> BaseURL a = BaseURL b)"
    by (simp add: sameProvider_def)
  show "Upsert U p ps =
     (if list_ex (\<lambda>x. sameProvider x (normalizeProvider U p)) ps
      then takeWhile (\<lambda>x. \<not> sameProvider x (normalizeProvider U p)) ps @
           normalizeProvider U p #
           tl (dropWhile (\<lambda>x. \<not> sameProvider x (normalizeProvider U p)) ps)
      else ps @ [normalizeProvider U p])"
    unfolding Upsert_def by (rule upsertLoop_shape)
qed

theorem Upsert_idempotent_witness:
  "Upsert keepBytes codexProvider (Upsert keepBytes codexProvider [ollamaProvider])
     = [ollamaProvider, codexProvider] \<and>
   countSame (normalizeProvider keepBytes codexProvider)
     (Upsert keepBytes codexProvider [ollamaProvider]) = 1"
proof -
  have one: "Upsert keepBytes codexProvider [ollamaProvider] = [ollamaProvider, codexProvider]"
    by code_simp
  have none: "countSame (normalizeProvider keepBytes codexProvider) [ollamaProvider] = 0"
    by code_simp
  note inst = Upsert_idempotent[of keepBytes codexProvider "[ollamaProvider]"]
  have "Upsert keepBytes codexProvider (Upsert keepBytes codexProvider [ollamaProvider])
          = Upsert keepBytes codexProvider [ollamaProvider]"
    by (rule inst[THEN conjunct1])
  then have twice:
    "Upsert keepBytes codexProvider (Upsert keepBytes codexProvider [ollamaProvider])
       = [ollamaProvider, codexProvider]"
    by (simp only: one)
  have "countSame (normalizeProvider keepBytes codexProvider)
          (Upsert keepBytes codexProvider [ollamaProvider])
        = max 1 (countSame (normalizeProvider keepBytes codexProvider) [ollamaProvider])"
    by (rule inst[THEN conjunct2, THEN conjunct1])
  then have "countSame (normalizeProvider keepBytes codexProvider)
          (Upsert keepBytes codexProvider [ollamaProvider]) = max 1 0"
    by (simp only: none)
  then have count: "countSame (normalizeProvider keepBytes codexProvider)
          (Upsert keepBytes codexProvider [ollamaProvider]) = 1"
    by simp
  from twice count show ?thesis by (rule conjI)
qed

text \<open>
  The state after \<open>SetAll\<close> of the same record twice holds two entries with that
  identity, and two \<open>Upsert\<close>s of the record leave both in the list.
\<close>

theorem Upsert_one_entry_counterexample:
  "reachable keepBytes (SetAll keepBytes [codexProvider, codexProvider] (NewManager keepBytes [])) \<and>
   countSame (normalizeProvider keepBytes codexProvider)
     (Providers (Upsert keepBytes codexProvider (Upsert keepBytes codexProvider
        (SetAll keepBytes [codexProvider, codexProvider] (NewManager keepBytes []))))) = 2"
proof
  show "reachable keepBytes
          (SetAll keepBytes [codexProvider, codexProvider] (NewManager keepBytes []))"
    by (intro reachable.intros)
  show "countSame (normalizeProvider keepBytes codexProvider)
     (Providers (Upsert keepBytes codexProvider (Upsert keepBytes codexProvider
        (SetAll keepBytes [codexProvider, codexProvider] (NewManager keepBytes []))))) = 2"
    by code_simp
qed

subsection \<open>Normalization and redaction\<close>




text \<open>
  Claim C6. In every state of the registry \<open>Views\<close> returns one view for each
  provider, in order, with the name, kind, base URL, prefix and route-all flag of the
  provider and, for each secret, the flag that says whether the trimmed secret was
  not blank, as it was when the record was stored. No secret value is in the output:
  two states that differ in the values of secrets only, blank where the other is
  blank, have the same views.
\<close>

theorem Views_redacted:
  "map VName (Views ps) = map Name ps \<and> map VKind (Views ps) = map Kind ps \<and>
   map VBaseURL (Views ps) = map BaseURL ps \<and>
   map VModelPrefix (Views ps) = map ModelPrefix ps \<and>
   map VRouteAll (Views ps) = map RouteAll ps \<and>
   map HasAPIKey (Views ps) = map (\<lambda>p. TrimSpace (APIKey p) \<noteq> []) ps \<and>
   map HasAccessToken (Views ps) = map (\<lambda>p. TrimSpace (AccessToken p) \<noteq> []) ps \<and>
   map HasAccountID (Views ps) = map (\<lambda>p. TrimSpace (AccountID p) \<noteq> []) ps \<and>
   HasAPIKey (View (normalizeProvider U x)) = (TrimSpace (APIKey x) \<noteq> []) \<and>
   HasAccessToken (View (normalizeProvider U x)) = (TrimSpace (AccessToken x) \<noteq> []) \<and>
   HasAccountID (View (normalizeProvider U x)) = (TrimSpace (AccountID x) \<noteq> []) \<and>
   (list_all2 secretsDifferOnly ps qs \<longrightarrow> Views ps = Views qs)"
proof -
  have fields:
    "map VName (Views ps) = map Name ps" "map VKind (Views ps) = map Kind ps"
    "map VBaseURL (Views ps) = map BaseURL ps"
    "map VModelPrefix (Views ps) = map ModelPrefix ps"
    "map VRouteAll (Views ps) = map RouteAll ps"
    "map HasAPIKey (Views ps) = map (\<lambda>p. TrimSpace (APIKey p) \<noteq> []) ps"
    "map HasAccessToken (Views ps) = map (\<lambda>p. TrimSpace (AccessToken p) \<noteq> []) ps"
    "map HasAccountID (Views ps) = map (\<lambda>p. TrimSpace (AccountID p) \<noteq> []) ps"
    by (simp_all add: Views_def View_def)
  have stored:
    "HasAPIKey (View (normalizeProvider U x)) = (TrimSpace (APIKey x) \<noteq> [])"
    "HasAccessToken (View (normalizeProvider U x)) = (TrimSpace (AccessToken x) \<noteq> [])"
    "HasAccountID (View (normalizeProvider U x)) = (TrimSpace (AccountID x) \<noteq> [])"
    by (simp_all add: View_def normalizeProvider_fields)
  have same: "list_all2 secretsDifferOnly ps qs \<longrightarrow> Views ps = Views qs"
  proof
    assume "list_all2 secretsDifferOnly ps qs"
    then show "Views ps = Views qs"
      by (induction rule: list_all2_induct)
         (simp_all add: Views_def View_def secretsDifferOnly_def)
  qed
  from fields stored same show ?thesis by blast
qed

theorem Views_redacted_witness:
  "list_all2 secretsDifferOnly [codexProvider] [codexProvider\<lparr>APIKey := ''other key''\<rparr>] \<and>
   Views [codexProvider\<lparr>APIKey := ''other key''\<rparr>] =
     [\<lparr>VName = ''codex'', VKind = ''codex'', VBaseURL = ''https://example.com'',
       HasAPIKey = True, HasAccessToken = False, HasAccountID = False,
       VModelPrefix = ''codex/'', VRouteAll = False\<rparr>]"
proof -
  have h: "list_all2 secretsDifferOnly [codexProvider] [codexProvider\<lparr>APIKey := ''other key''\<rparr>]"
    by code_simp
  have v: "Views [codexProvider] =
     [\<lparr>VName = ''codex'', VKind = ''codex'', VBaseURL = ''https://example.com'',
       HasAPIKey = True, HasAccessToken = False, HasAccountID = False,
       VModelPrefix = ''codex/'', VRouteAll = False\<rparr>]"
    by code_simp
  have "list_all2 secretsDifferOnly [codexProvider] [codexProvider\<lparr>APIKey := ''other key''\<rparr>]
        \<longrightarrow> Views [codexProvider] = Views [codexProvider\<lparr>APIKey := ''other key''\<rparr>]"
    using Views_redacted[of "[codexProvider]" keepBytes codexProvider
        "[codexProvider\<lparr>APIKey := ''other key''\<rparr>]"]
    by (elim conjE)
  with h have "Views [codexProvider] = Views [codexProvider\<lparr>APIKey := ''other key''\<rparr>]"
    by (rule mp[rotated])
  with v h show ?thesis by simp
qed

section \<open>The upstream translators\<close>

subsection \<open>The ChatGPT text extraction\<close>











lemma mapIndex_append_other:
  "k \<noteq> key \<Longrightarrow> mapIndex (kvs @ [(k, v)]) key = mapIndex kvs key"
  by (simp add: mapIndex_def)

lemma decodeFields_blank:
  assumes "decodeFields simpleField kvs x = Some s"
    and "TrimSpace x = []"
    and "list_all (\<lambda>(k, w). equalFold ''output_text'' k \<longrightarrow>
           (case w of JString t \<Rightarrow> TrimSpace t = [] | _ \<Rightarrow> True)) kvs"
  shows "TrimSpace s = []"
  using assms
proof (induction kvs arbitrary: x)
  case Nil
  then show ?case by simp
next
  case (Cons kv kvs)
  obtain k w where kv: "kv = (k, w)" by (cases kv)
  from Cons.prems(1) kv obtain y where y: "simpleField k w x = Some y"
    and rest: "decodeFields simpleField kvs y = Some s"
    by (auto split: option.splits)
  have "TrimSpace y = []"
  proof (cases "equalFold ''output_text'' k")
    case True
    with y have "decodeString w x = Some y" by (simp add: simpleField_def)
    moreover from True Cons.prems(3) kv
    have "case w of JString t \<Rightarrow> TrimSpace t = [] | _ \<Rightarrow> True" by simp
    ultimately show ?thesis using Cons.prems(2)
      by (auto simp: decodeString_def split: json.splits)
  next
    case False
    with y Cons.prems(2) show ?thesis by (simp add: simpleField_def)
  qed
  moreover from Cons.prems(3) have "list_all (\<lambda>(k, w). equalFold ''output_text'' k \<longrightarrow>
           (case w of JString t \<Rightarrow> TrimSpace t = [] | _ \<Rightarrow> True)) kvs" by simp
  ultimately show ?case using Cons.IH[OF rest] by blast
qed

lemma blank_field_returned:
  assumes "floatsOK (JObject kvs)"
    and "mapIndex kvs ''output_text'' = Some (JString v)"
    and "list_all (\<lambda>(k, w). equalFold ''output_text'' k \<longrightarrow>
           (case w of JString t \<Rightarrow> TrimSpace t = [] | _ \<Rightarrow> True)) kvs"
  shows "extractChatGPTOutputText (Some (JObject kvs)) = v"
proof -
  have gen: "unmarshalMap (Some (JObject kvs)) = Some kvs"
    using assms(1) by (simp add: unmarshalMap_def)
  show ?thesis
  proof (cases "unmarshalSimple (Some (JObject kvs))")
    case None
    then show ?thesis using gen assms(2)
      by (simp add: extractChatGPTOutputText_def)
  next
    case (Some s)
    then have "decodeFields simpleField kvs [] = Some s"
      by (simp add: unmarshalSimple_def decodeStruct_def)
    from decodeFields_blank[OF this TrimSpace_Nil assms(3)] have "TrimSpace s = []" .
    with Some gen assms(2) show ?thesis
      by (simp add: extractChatGPTOutputText_def)
  qed
qed

lemma output_not_output_text: "\<not> equalFold ''output_text'' ''output''"
  by code_simp

text \<open>
  Claim C10, as amended. For every body that decodes as a JSON object whose field
  \<open>output_text\<close> is present as a string \<open>v\<close>, and in which every string given by a
  member whose name is \<open>output_text\<close> up to the case of letters is blank, the
  extraction returns \<open>v\<close>, which is blank, and it does so whatever the \<open>output\<close> member
  is: layer (2) takes the blank value and layer (3) is not reached. The condition on
  the other spellings is needed: the typed decode of layer (1) reads them too.
\<close>

theorem blank_output_text_short_circuits:
  assumes "floatsOK (JObject kvs)"
    and "mapIndex kvs ''output_text'' = Some (JString v)"
    and "list_all (\<lambda>(k, w). equalFold ''output_text'' k \<longrightarrow>
           (case w of JString t \<Rightarrow> TrimSpace t = [] | _ \<Rightarrow> True)) kvs"
  shows "TrimSpace v = [] \<and>
         extractChatGPTOutputText (Some (JObject kvs)) = v \<and>
         (floatsOK out \<longrightarrow>
            extractChatGPTOutputText (Some (JObject (kvs @ [(''output'', out)]))) = v)"
proof (intro conjI)
  from assms(2) have "(''output_text'', JString v) \<in> set kvs"
    by (auto simp: mapIndex_def dest: map_of_SomeD)
  with assms(3) show "TrimSpace v = []"
    by (auto simp: list_all_iff equalFold_def)
  show "extractChatGPTOutputText (Some (JObject kvs)) = v"
    using assms by (rule blank_field_returned)
  show "floatsOK out \<longrightarrow>
          extractChatGPTOutputText (Some (JObject (kvs @ [(''output'', out)]))) = v"
  proof
    assume out: "floatsOK out"
    have 1: "floatsOK (JObject (kvs @ [(''output'', out)]))"
      using assms(1) out by simp
    have 2: "mapIndex (kvs @ [(''output'', out)]) ''output_text'' = Some (JString v)"
      using assms(2) by (simp add: mapIndex_append_other)
    have 3: "list_all (\<lambda>(k, w). equalFold ''output_text'' k \<longrightarrow>
           (case w of JString t \<Rightarrow> TrimSpace t = [] | _ \<Rightarrow> True)) (kvs @ [(''output'', out)])"
      using assms(3) output_not_output_text by simp
    from 1 2 3
    show "extractChatGPTOutputText (Some (JObject (kvs @ [(''output'', out)]))) = v"
      by (rule blank_field_returned)
  qed
qed

theorem blank_output_text_short_circuits_witness:
  "extractChatGPTOutputText (Some (JObject [(''output_text'', JString []),
      (''output'', JArray [JObject [(''content'', JArray [JObject [(''text'', JString ''a'')]])]])]))
     = [] \<and>
   extractChatGPTOutputText (Some (JObject [(''output_text'', JString '' ''),
      (''output'', JArray [JObject [(''content'', JArray [JObject [(''text'', JString ''a'')]])]])]))
     = '' ''"
proof -
  let ?out = "JArray [JObject [(''content'', JArray [JObject [(''text'', JString ''a'')]])]]"
  have out: "floatsOK ?out" by code_simp
  have a1: "floatsOK (JObject [(''output_text'', JString [])])" by code_simp
  have a2: "mapIndex [(''output_text'', JString [])] ''output_text'' = Some (JString [])"
    by code_simp
  have a3: "list_all (\<lambda>(k, w). equalFold ''output_text'' k \<longrightarrow>
           (case w of JString t \<Rightarrow> TrimSpace t = [] | _ \<Rightarrow> True))
           [(''output_text'', JString [])]" by code_simp
  have b1: "floatsOK (JObject [(''output_text'', JString '' '')])" by code_simp
  have b2: "mapIndex [(''output_text'', JString '' '')] ''output_text'' = Some (JString '' '')"
    by code_simp
  have b3: "list_all (\<lambda>(k, w). equalFold ''output_text'' k \<longrightarrow>
           (case w of JString t \<Rightarrow> TrimSpace t = [] | _ \<Rightarrow> True))
           [(''output_text'', JString '' '')]" by code_simp
  from blank_output_text_short_circuits[OF a1 a2 a3, of ?out] out
  have "extractChatGPTOutputText (Some (JObject ([(''output_text'', JString [])] @
          [(''output'', ?out)]))) = []"
    by blast
  moreover from blank_output_text_short_circuits[OF b1 b2 b3, of ?out] out
  have "extractChatGPTOutputText (Some (JObject ([(''output_text'', JString '' '')] @
          [(''output'', ?out)]))) = '' ''"
    by blast
  ultimately show ?thesis by simp
qed

text \<open>
  The body below decodes as an object, its field \<open>output_text\<close> is the empty string,
  and the extraction returns \<open>hi\<close>: the typed decode of layer (1) has read the member
  \<open>OUTPUT_TEXT\<close> into the same field.
\<close>

theorem blank_output_text_counterexample:
  "unmarshalMap (Some (JObject [(''output_text'', JString []), (''OUTPUT_TEXT'', JString ''hi''),
      (''output'', JArray [JObject [(''content'', JArray [JObject [(''text'', JString ''a'')]])]])]))
     = Some [(''output_text'', JString []), (''OUTPUT_TEXT'', JString ''hi''),
      (''output'', JArray [JObject [(''content'', JArray [JObject [(''text'', JString ''a'')]])]])] \<and>
   mapIndex [(''output_text'', JString []), (''OUTPUT_TEXT'', JString ''hi''),
      (''output'', JArray [JObject [(''content'', JArray [JObject [(''text'', JString ''a'')]])]])]
     ''output_text'' = Some (JString []) \<and>
   TrimSpace [] = [] \<and>
   extractChatGPTOutputText (Some (JObject [(''output_text'', JString []),
      (''OUTPUT_TEXT'', JString ''hi''),
      (''output'', JArray [JObject [(''content'', JArray [JObject [(''text'', JString ''a'')]])]])]))
     = ''hi''"
  by (intro conjI; code_simp)

subsection \<open>Ollama\<close>












section \<open>The completion handler\<close>

subsection \<open>The fallback path and the empty request\<close>

lemma no_match_branch:
  assumes "Messages req \<noteq> []" and "\<not> snd (snd (Match (remoteManager h) (Model req)))"
  shows "runCompletion U um now h req =
    ((\<lparr>ID = ''chatcmpl-mock'', Object = ''chat.completion'', Created = now,
       RespModel = chooseModel (Model req),
       Choices = [\<lparr>Index = 0, FinishReason = ''stop'',
                   Message = \<lparr>Role = ''assistant'',
                     Content = (if snd (StoreMatch U (rules h) (Content (last (Messages req))))
                                then fst (StoreMatch U (rules h) (Content (last (Messages req))))
                                else ''Mock response: I received your message and no custom rule matched.'')\<rparr>\<rparr>],
       Usage = \<lparr>PromptTokens = estimateTokens (Messages req),
                CompletionTokens = estimateTokens [\<lparr>Role = ''assistant'',
                     Content = (if snd (StoreMatch U (rules h) (Content (last (Messages req))))
                                then fst (StoreMatch U (rules h) (Content (last (Messages req))))
                                else ''Mock response: I received your message and no custom rule matched.'')\<rparr>],
                TotalTokens = estimateTokens (Messages req) +
                   estimateTokens [\<lparr>Role = ''assistant'',
                     Content = (if snd (StoreMatch U (rules h) (Content (last (Messages req))))
                                then fst (StoreMatch U (rules h) (Content (last (Messages req))))
                                else ''Mock response: I received your message and no custom rule matched.'')\<rparr>]\<rparr>\<rparr>,
      200, None),
     [RegistryMatch (Model req), RulesMatch (Content (last (Messages req)))])"
proof -
  obtain pr md where m: "Match (remoteManager h) (Model req) = (pr, md, False)"
    using assms(2) by (cases "Match (remoteManager h) (Model req)") auto
  have l: "Messages req ! (length (Messages req) - Suc 0) = last (Messages req)"
    using assms(1) by (simp add: last_conv_nth)
  obtain reply ok where s: "StoreMatch U (rules h) (Content (last (Messages req))) = (reply, ok)"
    by (cases "StoreMatch U (rules h) (Content (last (Messages req)))")
  show ?thesis
    using assms(1) by (simp add: runCompletion_def m l s Let_def)
qed


lemma seed_rule_hello:
  "StoreMatch U (rules (NewServer U send [])) ''hello''
     = (''Hi! This is a mocked assistant response.'', True)"
  by (simp add: StoreMatch_def NewServer_def ToLower_def asciiLower_def HasPrefix_def)

lemma no_provider_no_match:
  "Match (remoteManager (NewServer U send [])) m = (zeroProvider, [], False)"
  by (simp add: NewServer_def NewManager_def)

lemma tokens_hello:
  "estimateTokens [\<lparr>Role = role, Content = ''hello''\<rparr>] = 1"
  "estimateTokens [\<lparr>Role = ''assistant'', Content = ''Hi! This is a mocked assistant response.''\<rparr>] = 10"
  by (simp_all add: estimateTokens_def intQuo_def)

text \<open>
  Claim C2. For every request with at least one message whose model matches no
  provider, \<open>runCompletion\<close> asks the registry and then the rule store, with the
  content of the last message; the reply is the reply of the rule that matched, or
  the fixed fallback text when none did; the result is status 200, no error, and a
  response with the id \<open>chatcmpl-mock\<close> and one choice with index 0, finish reason
  \<open>stop\<close> and the role \<open>assistant\<close>. With no provider configured and the seed rules, the
  message \<open>hello\<close> gets the reply \<open>Hi! This is a mocked assistant response.\<close>
\<close>

theorem runCompletion_fallback:
  assumes "Messages req \<noteq> []"
    and "\<not> snd (snd (Match (remoteManager h) (Model req)))"
  shows
    "(\<exists>resp. runCompletion U um now h req =
        ((resp, 200, None),
         [RegistryMatch (Model req), RulesMatch (Content (last (Messages req)))]) \<and>
       ID resp = ''chatcmpl-mock'' \<and>
       Choices resp =
         [\<lparr>Index = 0, FinishReason = ''stop'',
           Message = \<lparr>Role = ''assistant'',
             Content =
               (if snd (StoreMatch U (rules h) (Content (last (Messages req))))
                then fst (StoreMatch U (rules h) (Content (last (Messages req))))
                else ''Mock response: I received your message and no custom rule matched.'')\<rparr>\<rparr>]) \<and>
     runCompletion U um now (NewServer U send [])
         \<lparr>Model = md, Messages = [\<lparr>Role = role, Content = ''hello''\<rparr>], Temperature = t\<rparr> =
       ((\<lparr>ID = ''chatcmpl-mock'', Object = ''chat.completion'', Created = now,
          RespModel = chooseModel md,
          Choices = [\<lparr>Index = 0, FinishReason = ''stop'',
                      Message = \<lparr>Role = ''assistant'',
                                 Content = ''Hi! This is a mocked assistant response.''\<rparr>\<rparr>],
          Usage = \<lparr>PromptTokens = 1, CompletionTokens = 10, TotalTokens = 11\<rparr>\<rparr>,
         200, None),
        [RegistryMatch md, RulesMatch ''hello''])"
proof
  show "\<exists>resp. runCompletion U um now h req =
        ((resp, 200, None),
         [RegistryMatch (Model req), RulesMatch (Content (last (Messages req)))]) \<and>
       ID resp = ''chatcmpl-mock'' \<and>
       Choices resp =
         [\<lparr>Index = 0, FinishReason = ''stop'',
           Message = \<lparr>Role = ''assistant'',
             Content =
               (if snd (StoreMatch U (rules h) (Content (last (Messages req))))
                then fst (StoreMatch U (rules h) (Content (last (Messages req))))
                else ''Mock response: I received your message and no custom rule matched.'')\<rparr>\<rparr>]"
    by (simp add: no_match_branch[OF assms])
  let ?req = "\<lparr>Model = md, Messages = [\<lparr>Role = role, Content = ''hello''\<rparr>], Temperature = t\<rparr>"
  have 1: "Messages ?req \<noteq> []" by simp
  have 2: "\<not> snd (snd (Match (remoteManager (NewServer U send [])) (Model ?req)))"
    by (simp add: no_provider_no_match)
  show "runCompletion U um now (NewServer U send []) ?req =
       ((\<lparr>ID = ''chatcmpl-mock'', Object = ''chat.completion'', Created = now,
          RespModel = chooseModel md,
          Choices = [\<lparr>Index = 0, FinishReason = ''stop'',
                      Message = \<lparr>Role = ''assistant'',
                                 Content = ''Hi! This is a mocked assistant response.''\<rparr>\<rparr>],
          Usage = \<lparr>PromptTokens = 1, CompletionTokens = 10, TotalTokens = 11\<rparr>\<rparr>,
         200, None),
        [RegistryMatch md, RulesMatch ''hello''])"
    by (simp add: no_match_branch[OF 1 2] seed_rule_hello tokens_hello)
qed

theorem runCompletion_fallback_witness:
  "runCompletion keepBytes rejectResponse 1700000000 (NewServer keepBytes failingTransport [])
       helloRequest =
     ((\<lparr>ID = ''chatcmpl-mock'', Object = ''chat.completion'', Created = 1700000000,
        RespModel = ''gpt-mock-1'',
        Choices = [\<lparr>Index = 0, FinishReason = ''stop'',
                    Message = \<lparr>Role = ''assistant'',
                               Content = ''Hi! This is a mocked assistant response.''\<rparr>\<rparr>],
        Usage = \<lparr>PromptTokens = 1, CompletionTokens = 10, TotalTokens = 11\<rparr>\<rparr>,
       200, None),
      [RegistryMatch ''gpt-mock-1'', RulesMatch ''hello''])"
proof -
  have 1: "Messages helloRequest \<noteq> []" by code_simp
  have 2: "\<not> snd (snd (Match (remoteManager (NewServer keepBytes failingTransport []))
                (Model helloRequest)))"
    by code_simp
  have c: "chooseModel ''gpt-mock-1'' = ''gpt-mock-1''" by code_simp
  from runCompletion_fallback[OF 1 2, THEN conjunct2,
      of keepBytes rejectResponse 1700000000 failingTransport "''gpt-mock-1''" "''user''" "IntLit 0"]
  show ?thesis by (simp add: helloRequest_def c)
qed

text \<open>
  Claim C3. For every request without a message, \<open>runCompletion\<close> fails with the
  error of an invalid request and status 400, returns the zero response, and makes
  no call: neither the registry nor the client nor the rule store is consulted.
\<close>

theorem runCompletion_empty_messages:
  assumes "Messages req = []"
  shows "runCompletion U um now h req = ((zeroResponse, 400, Some InvalidRequest), [])"
  using assms by (simp add: runCompletion_def)

theorem runCompletion_empty_messages_witness:
  "runCompletion keepBytes rejectResponse 1700000000
       \<lparr>rules = [], remoteManager = [ollamaProvider\<lparr>RouteAll := True\<rparr>],
        remoteClient = ollamaTestServer\<rparr>
       (helloRequest\<lparr>Messages := []\<rparr>) =
     ((zeroResponse, 400, Some InvalidRequest), [])"
proof -
  have "Messages (helloRequest\<lparr>Messages := []\<rparr>) = []" by simp
  then show ?thesis by (rule runCompletion_empty_messages)
qed

subsection \<open>The token estimate\<close>

lemma sumLengths_eq:
  "sumLengths ms acc = acc + of_nat (sum_list (map (\<lambda>m. length (Content m)) ms))"
  by (induction ms arbitrary: acc) (simp_all add: algebra_simps)

lemma sint_of_nat64:
  assumes "n < 2 ^ 63"
  shows "sint (of_nat n :: 64 word) = int n"
proof -
  have "(of_nat n :: 64 word) = word_of_int (int n)" by simp
  then have "sint (of_nat n :: 64 word) = signed_take_bit 63 (int n)"
    by (simp only: sint_sbintrunc') simp
  also have "\<dots> = int n"
    using assms by (intro signed_take_bit_int_eq_self) auto
  finally show ?thesis .
qed

lemma estimate_word:
  assumes "n < 2 ^ 63"
  shows "(let w = (of_nat n :: 64 word) in if w = 0 then 0 else if w <s 4 then 1 else intQuo w 4)
           = of_nat (spec_tokens n)"
proof -
  let ?w = "of_nat n :: 64 word"
  have s: "sint ?w = int n" using assms by (rule sint_of_nat64)
  have z: "?w = 0 \<longleftrightarrow> n = 0"
  proof
    assume "?w = 0"
    then have "sint ?w = 0" by simp
    with s show "n = 0" by simp
  qed simp
  have l: "?w <s 4 \<longleftrightarrow> n < 4"
    by (simp add: word_sless_alt s)
  have q: "4 \<le> n \<Longrightarrow> intQuo ?w 4 = of_nat (n div 4)"
  proof -
    assume "4 \<le> n"
    then have "sgn (int n) = 1" by simp
    moreover have "\<bar>int n\<bar> div 4 = int (n div 4)" by (simp add: zdiv_int)
    ultimately show ?thesis by (simp add: intQuo_def s)
  qed
  show ?thesis
  proof (cases "n = 0")
    case True
    then show ?thesis by (simp add: spec_tokens_def)
  next
    case False
    show ?thesis
    proof (cases "n < 4")
      case True
      with False z l show ?thesis by (simp add: spec_tokens_def Let_def)
    next
      case False
      then have "4 \<le> n" by simp
      with z l q[OF this] show ?thesis by (simp add: spec_tokens_def Let_def)
    qed
  qed
qed

lemma estimateTokens_spec:
  assumes "sum_list (map (\<lambda>m. length (Content m)) ms) < 2 ^ 63"
  shows "estimateTokens ms = of_nat (spec_tokens (sum_list (map (\<lambda>m. length (Content m)) ms)))"
  using estimate_word[OF assms] by (simp add: estimateTokens_def sumLengths_eq)

lemma spec_tokens_le: "spec_tokens n \<le> n"
  by (simp add: spec_tokens_def)

lemma unat_tokens:
  assumes "n < 2 ^ 63"
  shows "unat (of_nat (spec_tokens n) :: 64 word) = spec_tokens n"
proof -
  have "spec_tokens n < 2 ^ 63" using spec_tokens_le[of n] assms by simp
  then have "spec_tokens n < 2 ^ 64" by simp
  then show ?thesis by (simp add: unat_of_nat take_bit_nat_eq_self unsigned_of_nat)
qed

lemma length_concat_Content:
  "length (concat (map Content ms)) = sum_list (map (\<lambda>m. length (Content m)) ms)"
  by (induction ms) simp_all

lemma matchLoop_reply:
  "snd (matchLoop U rs lowered) \<Longrightarrow> fst (matchLoop U rs lowered) \<in> Reply ` set rs"
  by (induction rs) (auto split: if_splits)

text \<open>
  Claim C9. On the fallback path the usage is estimated by the function that gives 0
  for 0, 1 for 1 to 3 and the quarter, rounded down, from 4 on: the prompt tokens are
  that function of the length in bytes of the contents of all messages put
  together, which is the sum of their lengths; the completion tokens are that
  function of the length of the reply; the total is their sum. Lengths are Go
  \<open>int\<close>s: the strings that are in memory together have less than \<open>2 ^ 63\<close> bytes.
\<close>

theorem mock_usage_estimate:
  assumes "Messages req \<noteq> []"
    and "\<not> snd (snd (Match (remoteManager h) (Model req)))"
    and "sum_list (map (\<lambda>m. length (Content m)) (Messages req)) < 2 ^ 63"
    and "list_all (\<lambda>r. length (Reply r) < 2 ^ 63) (rules h)"
  shows
    "\<exists>resp reply.
       fst (runCompletion U um now h req) = (resp, 200, None) \<and>
       Choices resp =
         [\<lparr>Index = 0, FinishReason = ''stop'',
           Message = \<lparr>Role = ''assistant'', Content = reply\<rparr>\<rparr>] \<and>
       unat (PromptTokens (Usage resp))
         = spec_tokens (length (concat (map Content (Messages req)))) \<and>
       length (concat (map Content (Messages req)))
         = sum_list (map (\<lambda>m. length (Content m)) (Messages req)) \<and>
       unat (CompletionTokens (Usage resp)) = spec_tokens (length reply) \<and>
       TotalTokens (Usage resp) = PromptTokens (Usage resp) + CompletionTokens (Usage resp) \<and>
       unat (TotalTokens (Usage resp))
         = unat (PromptTokens (Usage resp)) + unat (CompletionTokens (Usage resp)) \<and>
       spec_tokens n = (if n = 0 then 0 else if n \<le> 3 then 1 else n div 4)"
proof -
  let ?hit = "StoreMatch U (rules h) (Content (last (Messages req)))"
  define reply where "reply =
    (if snd ?hit then fst ?hit
     else ''Mock response: I received your message and no custom rule matched.'')"
  let ?a = "sum_list (map (\<lambda>m. length (Content m)) (Messages req))"
  let ?P = "estimateTokens (Messages req)"
  let ?C = "estimateTokens [\<lparr>Role = ''assistant'', Content = reply\<rparr>]"
  have run: "fst (runCompletion U um now h req) =
    (\<lparr>ID = ''chatcmpl-mock'', Object = ''chat.completion'', Created = now,
      RespModel = chooseModel (Model req),
      Choices = [\<lparr>Index = 0, FinishReason = ''stop'',
                  Message = \<lparr>Role = ''assistant'', Content = reply\<rparr>\<rparr>],
      Usage = \<lparr>PromptTokens = ?P, CompletionTokens = ?C, TotalTokens = ?P + ?C\<rparr>\<rparr>,
     200, None)"
    unfolding reply_def by (simp only: no_match_branch[OF assms(1,2)] fst_conv)
  have rl: "length reply < 2 ^ 63"
  proof (cases "snd ?hit")
    case True
    then have "fst ?hit \<in> Reply ` set (rules h)"
      unfolding StoreMatch_def by (rule matchLoop_reply)
    with assms(4) True show ?thesis by (auto simp: list_all_iff reply_def)
  next
    case False
    then show ?thesis by (simp add: reply_def)
  qed
  have P: "?P = of_nat (spec_tokens ?a)"
    using assms(3) by (rule estimateTokens_spec)
  have C: "?C = of_nat (spec_tokens (length reply))"
    using estimateTokens_spec[of "[\<lparr>Role = ''assistant'', Content = reply\<rparr>]"] rl by simp
  have uP: "unat ?P = spec_tokens ?a"
    unfolding P using assms(3) by (rule unat_tokens)
  have uC: "unat ?C = spec_tokens (length reply)"
    unfolding C using rl by (rule unat_tokens)
  have "spec_tokens ?a < 2 ^ 63" "spec_tokens (length reply) < 2 ^ 63"
    using spec_tokens_le[of ?a] spec_tokens_le[of "length reply"] assms(3) rl by simp_all
  then have "unat ?P + unat ?C < 2 ^ LENGTH(64)"
    unfolding uP uC by simp
  then have uT: "unat (?P + ?C) = unat ?P + unat ?C"
    by (rule unat_add_lem[THEN iffD1])
  have st: "spec_tokens n = (if n = 0 then 0 else if n \<le> 3 then 1 else n div 4)"
    by (simp add: spec_tokens_def)
  have len: "length (concat (map Content (Messages req))) = ?a"
    by (rule length_concat_Content)
  show ?thesis
  proof (intro exI conjI)
    show "fst (runCompletion U um now h req) =
      (\<lparr>ID = ''chatcmpl-mock'', Object = ''chat.completion'', Created = now,
        RespModel = chooseModel (Model req),
        Choices = [\<lparr>Index = 0, FinishReason = ''stop'',
                    Message = \<lparr>Role = ''assistant'', Content = reply\<rparr>\<rparr>],
        Usage = \<lparr>PromptTokens = ?P, CompletionTokens = ?C, TotalTokens = ?P + ?C\<rparr>\<rparr>,
       200, None)"
      by (rule run)
  qed (simp_all add: uP uC uT st len)
qed

theorem mock_usage_estimate_witness:
  "unat (PromptTokens (Usage (fst (fst (runCompletion keepBytes rejectResponse 1700000000
      (NewServer keepBytes failingTransport []) helloRequest))))) = spec_tokens 5 \<and>
   spec_tokens 5 = 1"
proof -
  let ?h = "NewServer keepBytes failingTransport []"
  have 1: "Messages helloRequest \<noteq> []" by code_simp
  have 2: "\<not> snd (snd (Match (remoteManager ?h) (Model helloRequest)))" by code_simp
  have 3: "sum_list (map (\<lambda>m. length (Content m)) (Messages helloRequest)) < 2 ^ 63"
    by (simp add: helloRequest_def)
  have 4: "list_all (\<lambda>r. length (Reply r) < 2 ^ 63) (rules ?h)"
    by (simp add: NewServer_def)
  from mock_usage_estimate[OF 1 2 3 4, of keepBytes rejectResponse 1700000000]
  obtain resp where r: "fst (runCompletion keepBytes rejectResponse 1700000000 ?h helloRequest)
        = (resp, 200, None)"
    and u: "unat (PromptTokens (Usage resp))
        = spec_tokens (length (concat (map Content (Messages helloRequest))))"
    by blast
  from r have "fst (fst (runCompletion keepBytes rejectResponse 1700000000 ?h helloRequest)) = resp"
    by simp
  moreover have "length (concat (map Content (Messages helloRequest))) = 5"
    by (simp add: helloRequest_def)
  moreover have "spec_tokens 5 = 1" by (simp add: spec_tokens_def)
  ultimately show ?thesis using u by simp
qed

end
